theory Spec2Isabelle
  imports Complex_Main
begin

section \<open>Python values shared by the models\<close>

text \<open>
  Exceptions of the Python code are values of \<open>py_error\<close>; a function of the source that
  can raise returns \<open>py_error + 'a\<close>, with \<open>Inl\<close> the raised exception.
\<close>

datatype py_error =
    OverflowError
  | ValueError
  | DivisionByZero
  | InvalidOperation
  | IntegrityError
  | MultipleObjectsReturned
  | Http404
  | SMTPException

subsection \<open>datetime and timedelta\<close>

text \<open>
  A \<open>datetime\<close> is the number of microseconds since \<open>datetime.min\<close>
  (0001-01-01T00:00:00); a \<open>timedelta\<close> is a number of microseconds. Python normalises a
  timedelta so that \<open>0 \<le> seconds < 86400\<close> and \<open>0 \<le> microseconds < 10^6\<close>, hence its
  \<open>days\<close> attribute is the floor of the quotient by one day.
\<close>

type_synonym datetime = int
type_synonym timedelta = int

definition us_per_day :: int where
  "us_per_day = 86400000000"

definition datetime_max :: datetime where
  "datetime_max = 3652059 * us_per_day - 1"

definition valid_datetime :: "datetime \<Rightarrow> bool" where
  "valid_datetime d \<longleftrightarrow> 0 \<le> d \<and> d \<le> datetime_max"

definition timedelta_days :: "int \<Rightarrow> py_error + timedelta" where
  \<comment> \<open>\<open>timedelta(days=n)\<close>: the magnitude of the days is limited to 999999999\<close>
  "timedelta_days n =
     (if \<bar>n\<bar> > 999999999 then Inl OverflowError else Inr (n * us_per_day))"


definition datetime_add :: "datetime \<Rightarrow> timedelta \<Rightarrow> py_error + datetime" where
  \<comment> \<open>\<open>datetime + timedelta\<close>: a result outside the years 1..9999 raises\<close>
  "datetime_add d t =
     (let r = d + t in if valid_datetime r then Inr r else Inl OverflowError)"

definition td_days :: "timedelta \<Rightarrow> int" where
  "td_days t = t div us_per_day"

subsection \<open>str and random.randint\<close>







subsection \<open>Decimal arithmetic\<close>










definition decimal_truthy :: "rat option \<Rightarrow> bool" where
  \<comment> \<open>truth value of a nullable \<open>Decimal\<close>: \<open>None\<close> and zero are false\<close>
  "decimal_truthy v = (case v of None \<Rightarrow> False | Some d \<Rightarrow> d \<noteq> 0)"

section \<open>models.py\<close>

text \<open>
  Each model class is a record with the fields read or written by the modelled code.
  Field names shared by several classes carry a prefix naming their class. A foreign key
  is the primary key of the row it points to.
\<close>

subsection \<open>SubscriptionPlan\<close>

record SubscriptionPlan =
  plan_id :: nat
  plan_name :: string
  price :: rat
  duration_days :: int
  plan_is_active :: bool
  trainer_support :: bool
  premium_content :: bool


subsection \<open>CustomerSubscription\<close>

record CustomerSubscription =
  sub_pk :: "nat option"
  sub_customer :: nat
  sub_plan :: SubscriptionPlan
  start_date :: datetime
  end_date :: "datetime option"
  sub_is_active :: bool
  auto_renew :: bool

text \<open>\<open>days_remaining\<close> returns either \<open>float('inf')\<close> or an integer.\<close>

datatype days_left = Infinite | Days int

definition is_expired :: "datetime \<Rightarrow> CustomerSubscription \<Rightarrow> bool" where
  \<comment> \<open>the first argument is the value of \<open>timezone.now()\<close>\<close>
  "is_expired now self =
     (case end_date self of
        None \<Rightarrow> False
      | Some e \<Rightarrow> now > e)"

definition days_remaining :: "datetime \<Rightarrow> CustomerSubscription \<Rightarrow> days_left" where
  "days_remaining now self =
     (case end_date self of
        None \<Rightarrow> Infinite
      | Some e \<Rightarrow> (let remaining = td_days (e - now) in Days (max 0 remaining)))"

definition is_new :: "CustomerSubscription \<Rightarrow> bool" where
  \<comment> \<open>\<open>not self.pk\<close>\<close>
  "is_new self \<longleftrightarrow> sub_pk self = None \<or> sub_pk self = Some 0"

definition set_end_date :: "CustomerSubscription \<Rightarrow> py_error + CustomerSubscription" where
  \<comment> \<open>first statement of \<open>CustomerSubscription.save\<close>\<close>
  "set_end_date self =
     (if is_new self then
        (if duration_days (sub_plan self) \<noteq> 0 \<and> duration_days (sub_plan self) > 0 then
           (case timedelta_days (duration_days (sub_plan self)) of
              Inl e \<Rightarrow> Inl e
            | Inr td \<Rightarrow>
                (case datetime_add (start_date self) td of
                   Inl e \<Rightarrow> Inl e
                 | Inr d \<Rightarrow> Inr (self\<lparr> end_date := Some d \<rparr>)))
         else Inr self)
      else Inr self)"

definition CustomerSubscription_save ::
  "datetime \<Rightarrow> CustomerSubscription \<Rightarrow> py_error + CustomerSubscription" where
  \<comment> \<open>\<open>CustomerSubscription.save\<close> up to the call of \<open>super().save\<close>; the first argument
      is the clock read by \<open>is_expired\<close>\<close>
  "CustomerSubscription_save now self =
     (case set_end_date self of
        Inl e \<Rightarrow> Inl e
      | Inr s \<Rightarrow>
          Inr (if end_date s \<noteq> None \<and> is_expired now s
               then s\<lparr> sub_is_active := False \<rparr> else s))"

subsection \<open>Trainer, TrainerAssignment, Payment\<close>

record Trainer =
  trainer_id :: nat
  is_verified :: bool

record TrainerAssignment =
  ta_customer :: nat
  ta_trainer :: nat
  assigned_date :: datetime
  ta_is_active :: bool
  ta_notes :: string

text \<open>
  \<open>transaction_id\<close> is \<open>TXN_<timestamp to the second>_<customer id>\<close>; it is kept as the
  pair of the second and the customer.
\<close>

record Payment =
  pay_customer :: nat
  amount :: rat
  payment_status :: string
  transaction_id :: "int \<times> nat"

subsection \<open>Goal\<close>

record Goal =
  goal_id :: nat
  goal_customer :: nat
  title :: string
  target_value :: "rat option"
  current_value :: rat
  status :: string
  goal_is_active :: bool
  is_completed :: bool
  completed_at :: "datetime option"

definition Goal_save :: "Goal \<Rightarrow> Goal" where
  \<comment> \<open>\<open>Goal.save\<close> up to the call of \<open>super().save\<close>\<close>
  "Goal_save self =
     self\<lparr> goal_is_active := (status self = ''active''),
           is_completed := (status self = ''completed'') \<rparr>"

subsection \<open>Resource, Notification, Session\<close>

text \<open>
  \<open>file_content\<close> is \<open>None\<close> when reading the stored file raises.
\<close>

record FieldFile =
  file_name :: string
  file_content :: "string option"

record Resource =
  resource_id :: nat
  is_premium :: bool
  res_is_active :: bool
  res_file :: "FieldFile option"
  external_url :: "string option"
  file_url :: "string option"

record Notification =
  note_customer :: nat
  note_title :: string
  note_message :: string
  notification_type :: string

record Session =
  session_customer :: nat
  session_trainer :: nat
  session_date :: int
  session_time :: int
  duration_minutes :: int
  session_type :: string
  session_status :: string
  session_notes :: string

subsection \<open>Accounts\<close>

text \<open>
  The \<open>User\<close> and the \<open>Profile\<close> of an account are kept as one row, together with the
  address a trainer signs up with. A \<open>Customer\<close> row is its primary key.
\<close>

record Account =
  username :: string
  email :: string
  password :: string
  phone :: string
  role :: string
  address :: string

text \<open>
  What a view reads of \<open>request.user\<close>: whether it has a profile, the profile's role and
  the customer or trainer behind the profile.
\<close>

record Profile =
  profile_role :: string
  profile_customer :: "nat option"
  profile_trainer :: "nat option"

record User =
  profile :: "Profile option"

subsection \<open>The database\<close>

record database =
  users :: "Account list"
  customers :: "nat list"
  plans :: "SubscriptionPlan list"
  trainers :: "Trainer list"
  subscriptions :: "CustomerSubscription list"
  payments :: "Payment list"
  assignments :: "TrainerAssignment list"
  goals :: "Goal list"
  notifications :: "Notification list"
  sessions :: "Session list"
  resources :: "Resource list"

definition Notification_create :: "Notification \<Rightarrow> database \<Rightarrow> database" where
  "Notification_create n db = db\<lparr> notifications := notifications db @ [n] \<rparr>"

definition slot :: "Session \<Rightarrow> nat \<times> int \<times> int" where
  "slot s = (session_trainer s, session_date s, session_time s)"

definition Session_create :: "Session \<Rightarrow> database \<Rightarrow> py_error + database" where
  \<comment> \<open>\<open>unique_together = ('trainer', 'session_date', 'session_time')\<close>: the insert of a
      row with an occupied slot raises\<close>
  "Session_create s db =
     (if slot s \<in> set (map slot (sessions db)) then Inl IntegrityError
      else Inr (db\<lparr> sessions := sessions db @ [s] \<rparr>))"

definition Payment_create :: "Payment \<Rightarrow> database \<Rightarrow> py_error + database" where
  \<comment> \<open>\<open>transaction_id\<close> is declared unique\<close>
  "Payment_create p db =
     (if transaction_id p \<in> set (map transaction_id (payments db)) then Inl IntegrityError
      else Inr (db\<lparr> payments := payments db @ [p] \<rparr>))"

definition next_pk :: "CustomerSubscription list \<Rightarrow> nat" where
  "next_pk rows = Suc (fold max (map (\<lambda>r. case sub_pk r of None \<Rightarrow> 0 | Some k \<Rightarrow> k) rows) 0)"

definition subscription_write ::
  "CustomerSubscription \<Rightarrow> database \<Rightarrow> py_error + (CustomerSubscription \<times> database)" where
  \<comment> \<open>\<open>super().save\<close>: a new row is inserted under the one-to-one constraint on
      \<open>customer\<close>, a row with a primary key replaces the stored one\<close>
  "subscription_write s db =
     (if is_new s then
        (if sub_customer s \<in> set (map sub_customer (subscriptions db)) then Inl IntegrityError
         else let s' = s\<lparr> sub_pk := Some (next_pk (subscriptions db)) \<rparr>
              in Inr (s', db\<lparr> subscriptions := subscriptions db @ [s'] \<rparr>))
      else Inr (s, db\<lparr> subscriptions :=
                  map (\<lambda>r. if sub_pk r = sub_pk s then s else r) (subscriptions db) \<rparr>))"

definition goal_write :: "Goal \<Rightarrow> database \<Rightarrow> database" where
  \<comment> \<open>\<open>super().save\<close> of a goal read from the table\<close>
  "goal_write g db =
     db\<lparr> goals := map (\<lambda>r. if goal_id r = goal_id g then g else r) (goals db) \<rparr>"

section \<open>Requests and responses\<close>

datatype level = success | error

type_synonym flash = "level \<times> string"

text \<open>
  \<open>Render\<close> carries the template and the names of the context entries, \<open>HttpResponse\<close>
  the body and the file name of its \<open>Content-Disposition\<close> header.
\<close>

datatype response =
    Redirect string
  | Render string "string list"
  | HttpResponse string string



section \<open>views.py: signup with a one-time password\<close>






definition falsy :: "string option \<Rightarrow> bool" where
  \<comment> \<open>\<open>not s\<close> for a value that is a string or \<open>None\<close>\<close>
  "falsy s \<longleftrightarrow> s = None \<or> s = Some []"








section \<open>dashboard_views.py\<close>

definition get_customer_or_redirect :: "User \<Rightarrow> nat option" where
  \<comment> \<open>\<open>None\<close> stands for the pair \<open>(None, redirect('login'))\<close>\<close>
  "get_customer_or_redirect user =
     (case profile user of
        None \<Rightarrow> None
      | Some p \<Rightarrow> if profile_role p \<noteq> ''customer'' then None else profile_customer p)"

subsection \<open>subscribe_to_plan\<close>

text \<open>The readings of \<open>timezone.now()\<close> during one request.\<close>

record clock =
  t_start :: datetime
  t_end :: datetime
  t_save :: datetime
  t_pay :: datetime
  t_assign :: datetime

definition assignment_count :: "TrainerAssignment list \<Rightarrow> Trainer \<Rightarrow> nat" where
  \<comment> \<open>\<open>Count('assigned_customers', filter=Q(assigned_customers__is_active=True))\<close>\<close>
  "assignment_count as t =
     length (filter (\<lambda>a. ta_trainer a = trainer_id t \<and> ta_is_active a) as)"

definition first :: "'a list \<Rightarrow> 'a option" where
  "first xs = (case xs of [] \<Rightarrow> None | x # _ \<Rightarrow> Some x)"

definition available_trainer :: "database \<Rightarrow> Trainer option" where
  \<comment> \<open>the annotated query: \<open>filter(is_verified=True).order_by('assignment_count').first()\<close>.
      The rows of \<open>trainers\<close> are in the order the database iterates them; the ordering
      keeps rows of equal count in that order\<close>
  "available_trainer db =
     first (sort_key (assignment_count (assignments db)) (filter is_verified (trainers db)))"

definition assign_trainer :: "datetime \<Rightarrow> nat \<Rightarrow> SubscriptionPlan \<Rightarrow> database \<Rightarrow> database" where
  \<comment> \<open>the block \<open>if plan.trainer_support: try: ... except Exception: pass\<close>\<close>
  "assign_trainer now customer plan db =
     (if trainer_support plan then
        (case available_trainer db of
           None \<Rightarrow> db
         | Some t \<Rightarrow>
             (case filter (\<lambda>a. ta_customer a = customer) (assignments db) of
                [] \<Rightarrow>
                  db\<lparr> assignments := assignments db @
                    [\<lparr> ta_customer = customer, ta_trainer = trainer_id t, assigned_date = now,
                       ta_is_active = True,
                       ta_notes = ''Automatically assigned with '' @ plan_name plan
                                  @ '' subscription.'' \<rparr>] \<rparr>
              | [a] \<Rightarrow>
                  db\<lparr> assignments :=
                    map (\<lambda>r. if ta_customer r = customer
                             then a\<lparr> ta_trainer := trainer_id t, ta_is_active := True,
                                    ta_notes := ''Reassigned with '' @ plan_name plan
                                                @ '' subscription upgrade.'' \<rparr>
                             else r) (assignments db) \<rparr>
              | _ \<Rightarrow> db))
      else db)"

definition get_or_create_subscription ::
  "clock \<Rightarrow> nat \<Rightarrow> SubscriptionPlan \<Rightarrow> database
     \<Rightarrow> py_error + ((CustomerSubscription \<times> bool) \<times> database)" where
  \<comment> \<open>the defaults are evaluated before \<open>get_or_create\<close> is called\<close>
  "get_or_create_subscription clk customer plan db =
     (case timedelta_days (duration_days plan) of
        Inl e \<Rightarrow> Inl e
      | Inr td \<Rightarrow>
          (case datetime_add (t_end clk) td of
             Inl e \<Rightarrow> Inl e
           | Inr ed \<Rightarrow>
               (case filter (\<lambda>s. sub_customer s = customer) (subscriptions db) of
                  [] \<Rightarrow>
                    (case CustomerSubscription_save (t_save clk)
                            \<lparr> sub_pk = None, sub_customer = customer, sub_plan = plan,
                              start_date = t_start clk, end_date = Some ed,
                              sub_is_active = True, auto_renew = True \<rparr> of
                       Inl e \<Rightarrow> Inl e
                     | Inr s \<Rightarrow>
                         (case subscription_write s db of
                            Inl e \<Rightarrow> Inl e
                          | Inr (s', db') \<Rightarrow> Inr ((s', True), db')))
                | [s] \<Rightarrow> Inr ((s, False), db)
                | _ \<Rightarrow> Inl MultipleObjectsReturned)))"

definition update_subscription ::
  "clock \<Rightarrow> SubscriptionPlan \<Rightarrow> CustomerSubscription \<Rightarrow> database
     \<Rightarrow> py_error + (CustomerSubscription \<times> database)" where
  \<comment> \<open>the branch \<open>if not created\<close>\<close>
  "update_subscription clk plan subscription db =
     (case timedelta_days (duration_days plan) of
        Inl e \<Rightarrow> Inl e
      | Inr td \<Rightarrow>
          (case datetime_add (t_end clk) td of
             Inl e \<Rightarrow> Inl e
           | Inr ed \<Rightarrow>
               (case CustomerSubscription_save (t_save clk)
                       (subscription\<lparr> sub_plan := plan, start_date := t_start clk,
                                       end_date := Some ed, sub_is_active := True,
                                       auto_renew := True \<rparr>) of
                  Inl e \<Rightarrow> Inl e
                | Inr s \<Rightarrow> subscription_write s db)))"

definition subscribe_body ::
  "clock \<Rightarrow> nat \<Rightarrow> SubscriptionPlan \<Rightarrow> database \<Rightarrow> database \<times> py_error option" where
  \<comment> \<open>the body of the \<open>try\<close>: the database reached, and the exception if one was raised\<close>
  "subscribe_body clk customer plan db =
     (case get_or_create_subscription clk customer plan db of
        Inl e \<Rightarrow> (db, Some e)
      | Inr ((subscription, created), db1) \<Rightarrow>
          (case (if created then Inr (subscription, db1)
                 else update_subscription clk plan subscription db1) of
             Inl e \<Rightarrow> (db1, Some e)
           | Inr (subscription', db2) \<Rightarrow>
               (case Payment_create
                       \<lparr> pay_customer = customer, amount = price plan,
                         payment_status = ''completed'',
                         transaction_id = (t_pay clk div 1000000, customer) \<rparr> db2 of
                  Inl e \<Rightarrow> (db2, Some e)
                | Inr db3 \<Rightarrow>
                    (Notification_create
                       \<lparr> note_customer = customer, note_title = ''Subscription Activated'',
                         note_message = ''Your '' @ plan_name plan
                            @ '' subscription has been activated successfully!'',
                         notification_type = ''subscription'' \<rparr>
                       (assign_trainer (t_assign clk) customer plan db3), None))))"

definition describe :: "py_error \<Rightarrow> string" where
  \<comment> \<open>\<open>str(e)\<close>, of which the model keeps the class of the exception\<close>
  "describe e =
     (case e of
        OverflowError \<Rightarrow> ''OverflowError''
      | ValueError \<Rightarrow> ''ValueError''
      | DivisionByZero \<Rightarrow> ''DivisionByZero''
      | InvalidOperation \<Rightarrow> ''InvalidOperation''
      | IntegrityError \<Rightarrow> ''IntegrityError''
      | MultipleObjectsReturned \<Rightarrow> ''MultipleObjectsReturned''
      | Http404 \<Rightarrow> ''Http404''
      | SMTPException \<Rightarrow> ''SMTPException'')"

definition subscribe_to_plan ::
  "clock \<Rightarrow> User option \<Rightarrow> bool \<Rightarrow> nat \<Rightarrow> database
     \<Rightarrow> py_error + (database \<times> flash list \<times> response)" where
  \<comment> \<open>the third argument tells whether the request is a POST\<close>
  "subscribe_to_plan clk user is_post pid db =
     (case user of
        None \<Rightarrow> Inr (db, [], Redirect ''login'')
      | Some u \<Rightarrow>
          (if \<not> is_post then Inr (db, [], Redirect ''subscription_plans'')
           else
             (case get_customer_or_redirect u of
                None \<Rightarrow> Inr (db, [], Redirect ''login'')
              | Some customer \<Rightarrow>
                  (case find (\<lambda>p. plan_id p = pid \<and> plan_is_active p) (plans db) of
                     None \<Rightarrow> Inl Http404
                   | Some plan \<Rightarrow>
                       (case subscribe_body clk customer plan db of
                          (db', None) \<Rightarrow>
                            Inr (db',
                                 [(success, ''Successfully subscribed to '' @ plan_name plan @ ''!'')],
                                 Redirect ''subscription_details'')
                        | (db', Some e) \<Rightarrow>
                            Inr (db',
                                 [(error, ''Error processing subscription: '' @ describe e)],
                                 Redirect ''subscription_details''))))))"

subsection \<open>goals_management\<close>

text \<open>
  The POST data of \<open>goals_management\<close>. \<open>p_current_value\<close> and \<open>p_target_value\<close> are the
  values of \<open>float(...)\<close> on the posted text, \<open>None\<close> when \<open>float\<close> raises;
  \<open>p_target_date_ok\<close> tells whether the posted target date parses. A finite float is a
  rational number; the model does not cover infinities and NaN.
\<close>

record goal_post =
  action :: string
  p_goal_id :: nat
  p_current_value :: "rat option"
  p_title :: string
  p_target_value :: "rat option"
  p_target_date_ok :: bool

definition get_goal :: "nat \<Rightarrow> nat \<Rightarrow> database \<Rightarrow> py_error + Goal" where
  \<comment> \<open>\<open>get_object_or_404(Goal, id=goal_id, customer=customer)\<close>\<close>
  "get_goal gid customer db =
     (case find (\<lambda>g. goal_id g = gid \<and> goal_customer g = customer) (goals db) of
        None \<Rightarrow> Inl Http404
      | Some g \<Rightarrow> Inr g)"

definition create_goal :: "nat \<Rightarrow> goal_post \<Rightarrow> database \<Rightarrow> database \<times> py_error option" where
  "create_goal customer p db =
     (case p_target_value p of
        None \<Rightarrow> (db, Some ValueError)
      | Some t \<Rightarrow>
          if \<not> p_target_date_ok p then (db, Some ValueError)
          else
            (db\<lparr> goals := goals db @
               [Goal_save
                  \<lparr> goal_id = Suc (fold max (map goal_id (goals db)) 0),
                    goal_customer = customer, title = p_title p,
                    target_value = (if t \<noteq> 0 then Some t else None), current_value = 0,
                    status = ''active'', goal_is_active = True, is_completed = False,
                    completed_at = None \<rparr>] \<rparr>, None))"

definition goal_completed_title :: string where
  \<comment> \<open>the text is followed by four symbols outside ASCII, here in UTF-8\<close>
  "goal_completed_title =
     ''Goal Completed! '' @ map char_of [195, 176, 197, 184, 197, 189, 226, 128, 176 :: nat]"

definition update_progress ::
  "datetime \<Rightarrow> nat \<Rightarrow> goal_post \<Rightarrow> database \<Rightarrow> database \<times> py_error option" where
  "update_progress now customer p db =
     (case get_goal (p_goal_id p) customer db of
        Inl e \<Rightarrow> (db, Some e)
      | Inr goal0 \<Rightarrow>
          (case p_current_value p of
             None \<Rightarrow> (db, Some ValueError)
           | Some v \<Rightarrow>
               (let goal = goal0\<lparr> current_value := v \<rparr>
                in if decimal_truthy (target_value goal) \<and>
                      (case target_value goal of
                         None \<Rightarrow> False
                       | Some t \<Rightarrow> current_value goal \<ge> t)
                   then
                     (let goal' = goal\<lparr> status := ''completed'', completed_at := Some now \<rparr>;
                          db1 = Notification_create
                                  \<lparr> note_customer = customer,
                                    note_title = goal_completed_title,
                                    note_message =
                                      ''Congratulations! You've completed your goal: ''
                                      @ title goal',
                                    notification_type = ''general'' \<rparr> db
                      in (goal_write (Goal_save goal') db1, None))
                   else (goal_write (Goal_save goal) db, None))))"

definition change_status :: "nat \<Rightarrow> goal_post \<Rightarrow> database \<Rightarrow> database \<times> py_error option" where
  \<comment> \<open>the actions \<open>pause\<close>, \<open>resume\<close> and \<open>cancel\<close>\<close>
  "change_status customer p db =
     (case get_goal (p_goal_id p) customer db of
        Inl e \<Rightarrow> (db, Some e)
      | Inr goal \<Rightarrow>
          (let goal' =
                 (if action p = ''pause'' then goal\<lparr> status := ''paused'' \<rparr>
                  else if action p = ''resume'' then goal\<lparr> status := ''active'' \<rparr>
                  else if action p = ''cancel'' then goal\<lparr> status := ''cancelled'' \<rparr>
                  else goal)
           in (goal_write (Goal_save goal') db, None)))"

definition goals_management_post ::
  "datetime \<Rightarrow> nat \<Rightarrow> goal_post \<Rightarrow> database \<Rightarrow> database \<times> flash list \<times> response" where
  \<comment> \<open>the branch \<open>request.method == 'POST'\<close> for the customer of the request\<close>
  "goals_management_post now customer p db =
     (let (db', msgs) =
        (if action p = ''create'' then
           (case create_goal customer p db of
              (d, None) \<Rightarrow> (d, [(success, ''Goal created successfully!'')])
            | (d, Some e) \<Rightarrow> (d, [(error, ''Error processing request: '' @ describe e)]))
         else if action p = ''update_progress'' then
           (case update_progress now customer p db of
              (d, None) \<Rightarrow> (d, [(success, ''Goal progress updated!'')])
            | (d, Some e) \<Rightarrow> (d, [(error, ''Error processing request: '' @ describe e)]))
         else if action p \<in> set [''pause'', ''resume'', ''cancel''] then
           (case change_status customer p db of
              (d, None) \<Rightarrow> (d, [(success, ''Goal '' @ action p @ ''d successfully!'')])
            | (d, Some e) \<Rightarrow> (d, [(error, ''Error processing request: '' @ describe e)]))
         else (db, []))
      in (db', msgs, Redirect ''goals_management''))"

subsection \<open>download_resource\<close>

definition basename :: "string \<Rightarrow> string" where
  \<comment> \<open>\<open>name.split("/")[-1]\<close>\<close>
  "basename name = rev (takeWhile (\<lambda>c. c \<noteq> CHR ''/'') (rev name))"

definition has_premium_access :: "nat \<Rightarrow> database \<Rightarrow> bool" where
  \<comment> \<open>the negation of \<open>not subscription or not subscription.is_active or not
      subscription.plan.premium_content\<close>\<close>
  "has_premium_access customer db =
     (case find (\<lambda>s. sub_customer s = customer) (subscriptions db) of
        None \<Rightarrow> False
      | Some subscription \<Rightarrow>
          \<not> (\<not> sub_is_active subscription \<or> \<not> premium_content (sub_plan subscription)))"

definition download_resource ::
  "User option \<Rightarrow> nat \<Rightarrow> database \<Rightarrow> py_error + (flash list \<times> response)" where
  "download_resource user rid db =
     (case user of
        None \<Rightarrow> Inr ([], Redirect ''login'')
      | Some u \<Rightarrow>
          (case get_customer_or_redirect u of
             None \<Rightarrow> Inr ([], Redirect ''login'')
           | Some customer \<Rightarrow>
               (case find (\<lambda>r. resource_id r = rid \<and> res_is_active r) (resources db) of
                  None \<Rightarrow> Inl Http404
                | Some resource \<Rightarrow>
                    if is_premium resource \<and> \<not> has_premium_access customer db then
                      Inr ([(error, ''Premium subscription required to access this resource.'')],
                           Redirect ''resources_downloads'')
                    else
                      (case res_file resource of
                         Some f \<Rightarrow>
                           (case file_content f of
                              Some content \<Rightarrow> Inr ([], HttpResponse content (basename (file_name f)))
                            | None \<Rightarrow>
                                Inr ([(error, ''Error downloading file.'')],
                                     Redirect ''resources_downloads''))
                       | None \<Rightarrow>
                           if \<not> falsy (external_url resource) then
                             Inr ([], Redirect (the (external_url resource)))
                           else if \<not> falsy (file_url resource) then
                             Inr ([], Redirect (the (file_url resource)))
                           else
                             Inr ([(error, ''Resource file not found.'')],
                                  Redirect ''resources_downloads'')))))"

section \<open>trainer_dashboard_views.py\<close>

definition get_trainer_or_redirect :: "User \<Rightarrow> database \<Rightarrow> Trainer option" where
  "get_trainer_or_redirect user db =
     (case profile user of
        None \<Rightarrow> None
      | Some p \<Rightarrow>
          if profile_role p \<noteq> ''trainer'' then None
          else
            (case profile_trainer p of
               None \<Rightarrow> None
             | Some tid \<Rightarrow>
                 (case find (\<lambda>t. trainer_id t = tid) (trainers db) of
                    None \<Rightarrow> None
                  | Some t \<Rightarrow> if \<not> is_verified t then None else Some t)))"

text \<open>
  The POST data of \<open>trainer_schedule\<close>: the posted texts of the date and the time, the
  values \<open>strptime\<close> parses from them and the value \<open>int\<close> parses from the duration, each
  \<open>None\<close> when the parser raises \<open>ValueError\<close>.
\<close>

record schedule_post =
  sp_customer_id :: nat
  sp_session_date :: string
  sp_session_time :: string
  sp_parsed_date :: "int option"
  sp_parsed_time :: "int option"
  sp_session_type :: string
  sp_duration_minutes :: "int option"
  sp_notes :: string

definition conflicting :: "Trainer \<Rightarrow> int \<Rightarrow> int \<Rightarrow> database \<Rightarrow> bool" where
  \<comment> \<open>the query \<open>existing_session\<close>\<close>
  "conflicting trainer d tm db =
     (filter (\<lambda>s. session_trainer s = trainer_id trainer \<and> session_date s = d \<and>
                   session_time s = tm \<and>
                   session_status s \<in> set [''scheduled'', ''confirmed'']) (sessions db) \<noteq> [])"

definition schedule_body :: "Trainer \<Rightarrow> schedule_post \<Rightarrow> database \<Rightarrow> database \<times> flash list" where
  \<comment> \<open>the \<open>try\<close> statement of the POST branch with its two handlers\<close>
  "schedule_body trainer p db =
     (case sp_duration_minutes p of
        None \<Rightarrow> (db, [(error, ''Invalid date or time format.'')])
      | Some duration \<Rightarrow>
          if sp_customer_id p \<notin> set (customers db) then
            (db, [(error, ''Error scheduling session: '' @ describe Http404)])
          else
            (case filter (\<lambda>a. ta_trainer a = trainer_id trainer \<and>
                               ta_customer a = sp_customer_id p \<and> ta_is_active a)
                    (assignments db) of
               [] \<Rightarrow> (db, [(error, ''You are not assigned to this client.'')])
             | [a] \<Rightarrow>
                 (case (sp_parsed_date p, sp_parsed_time p) of
                    (Some d, Some tm) \<Rightarrow>
                      if conflicting trainer d tm db then
                        (db, [(error, ''You already have a session scheduled at this time.'')])
                      else
                        (case Session_create
                                \<lparr> session_customer = sp_customer_id p,
                                  session_trainer = trainer_id trainer,
                                  session_date = d, session_time = tm,
                                  duration_minutes = duration,
                                  session_type = sp_session_type p,
                                  session_status = ''scheduled'',
                                  session_notes = sp_notes p \<rparr> db of
                           Inl e \<Rightarrow> (db, [(error, ''Error scheduling session: '' @ describe e)])
                         | Inr db1 \<Rightarrow>
                             (Notification_create
                                \<lparr> note_customer = sp_customer_id p,
                                  note_title = ''New Session Scheduled'',
                                  note_message = ''Your trainer has scheduled a ''
                                    @ sp_session_type p @ '' session for ''
                                    @ sp_session_date p @ '' at '' @ sp_session_time p @ ''.'',
                                  notification_type = ''session'' \<rparr> db1,
                              [(success, ''Session scheduled successfully!'')]))
                  | _ \<Rightarrow> (db, [(error, ''Invalid date or time format.'')]))
             | _ \<Rightarrow> (db, [(error, ''Error scheduling session: '' @ describe MultipleObjectsReturned)])))"

definition trainer_schedule_post ::
  "User option \<Rightarrow> schedule_post \<Rightarrow> database \<Rightarrow> database \<times> flash list \<times> response" where
  "trainer_schedule_post user p db =
     (case user of
        None \<Rightarrow> (db, [], Redirect ''login'')
      | Some u \<Rightarrow>
          (case get_trainer_or_redirect u db of
             None \<Rightarrow> (db, [], Redirect ''login'')
           | Some trainer \<Rightarrow>
               (case schedule_body trainer p db of
                  (db', msgs) \<Rightarrow> (db', msgs, Redirect ''trainer_schedule''))))"

section \<open>admin_views.py\<close>


section \<open>Invariants of the tables\<close>

definition unique_slots :: "database \<Rightarrow> bool" where
  \<comment> \<open>no two sessions share trainer, date and time\<close>
  "unique_slots db \<longleftrightarrow> distinct (map slot (sessions db))"

definition one_subscription_each :: "database \<Rightarrow> bool" where
  \<comment> \<open>no two subscriptions belong to the same customer\<close>
  "one_subscription_each db \<longleftrightarrow> distinct (map sub_customer (subscriptions db))"

definition subscription_keys :: "database \<Rightarrow> bool" where
  \<comment> \<open>the primary keys of the stored subscriptions are set and differ\<close>
  "subscription_keys db \<longleftrightarrow>
     distinct (map sub_pk (subscriptions db)) \<and>
     (\<forall>s \<in> set (subscriptions db). \<not> is_new s)"




definition flags_mirror :: "Goal \<Rightarrow> bool" where
  \<comment> \<open>the compatibility flags of a goal agree with its status\<close>
  "flags_mirror g \<longleftrightarrow>
     (goal_is_active g \<longleftrightarrow> status g = ''active'') \<and>
     (is_completed g \<longleftrightarrow> status g = ''completed'')"

section \<open>Example data\<close>

text \<open>Concrete rows and requests at which the theorems below are evaluated.\<close>

definition example_plan :: SubscriptionPlan where
  "example_plan =
     \<lparr> plan_id = 1, plan_name = ''Premium'', price = 2999 / 100, duration_days = 30,
       plan_is_active = True, trainer_support = True, premium_content = True \<rparr>"

definition example_subscription :: "datetime option \<Rightarrow> CustomerSubscription" where
  "example_subscription e =
     \<lparr> sub_pk = Some 1, sub_customer = 7, sub_plan = example_plan, start_date = 0,
       end_date = e, sub_is_active = True, auto_renew = False \<rparr>"

definition example_user :: "nat \<Rightarrow> User" where
  \<comment> \<open>the user of a customer\<close>
  "example_user c =
     \<lparr> profile = Some \<lparr> profile_role = ''customer'', profile_customer = Some c,
                        profile_trainer = None \<rparr> \<rparr>"

definition empty_db :: database where
  "empty_db =
     \<lparr> users = [], customers = [], plans = [], trainers = [], subscriptions = [],
       payments = [], assignments = [], goals = [], notifications = [], sessions = [],
       resources = [] \<rparr>"

definition example_resource :: Resource where
  "example_resource =
     \<lparr> resource_id = 3, is_premium = True, res_is_active = True,
       res_file = Some \<lparr> file_name = ''resources/plan.pdf'', file_content = Some ''PDF'' \<rparr>,
       external_url = None, file_url = None \<rparr>"

definition download_db :: database where
  \<comment> \<open>customer 7 holds an active subscription to a premium plan, customer 8 none\<close>
  "download_db =
     empty_db\<lparr> customers := [7, 8], plans := [example_plan],
               subscriptions := [example_subscription None],
               resources := [example_resource] \<rparr>"

definition example_trainer_user :: "nat \<Rightarrow> User" where
  "example_trainer_user t =
     \<lparr> profile = Some \<lparr> profile_role = ''trainer'', profile_customer = None,
                        profile_trainer = Some t \<rparr> \<rparr>"

definition example_session :: "string \<Rightarrow> Session" where
  \<comment> \<open>a session of trainer 2 with customer 7 on day 20000 at 10:00, with the given status\<close>
  "example_session st =
     \<lparr> session_customer = 7, session_trainer = 2, session_date = 20000, session_time = 600,
       duration_minutes = 60, session_type = ''personal'', session_status = st,
       session_notes = [] \<rparr>"

definition schedule_db :: "string \<Rightarrow> database" where
  \<comment> \<open>trainer 2 is verified and assigned to customer 7, and has one session\<close>
  "schedule_db st =
     empty_db\<lparr> customers := [7], trainers := [\<lparr> trainer_id = 2, is_verified = True \<rparr>],
               assignments := [\<lparr> ta_customer = 7, ta_trainer = 2, assigned_date = 0,
                                 ta_is_active = True, ta_notes = [] \<rparr>],
               sessions := [example_session st] \<rparr>"

definition example_schedule_post :: "int \<Rightarrow> schedule_post" where
  \<comment> \<open>a request for a session with customer 7 on day 20000 at the given minute\<close>
  "example_schedule_post tm =
     \<lparr> sp_customer_id = 7, sp_session_date = ''2024-10-04'', sp_session_time = ''10:00'',
       sp_parsed_date = Some 20000, sp_parsed_time = Some tm, sp_session_type = ''personal'',
       sp_duration_minutes = Some 60, sp_notes = [] \<rparr>"

definition example_clock :: clock where
  "example_clock =
     \<lparr> t_start = 1000, t_end = 1007, t_save = 1010, t_pay = 1020, t_assign = 1030 \<rparr>"

definition new_subscription :: CustomerSubscription where
  \<comment> \<open>a subscription of customer 7 that has not been saved yet\<close>
  "new_subscription =
     \<lparr> sub_pk = None, sub_customer = 7, sub_plan = example_plan, start_date = 1000,
       end_date = None, sub_is_active = True, auto_renew = True \<rparr>"

definition plans_db :: database where
  "plans_db = empty_db\<lparr> customers := [7], plans := [example_plan] \<rparr>"

definition example_goal :: "rat option \<Rightarrow> Goal" where
  \<comment> \<open>an active goal of customer 7 with the given target\<close>
  "example_goal t =
     \<lparr> goal_id = 4, goal_customer = 7, title = ''Run'', target_value = t, current_value = 0,
       status = ''active'', goal_is_active = True, is_completed = False,
       completed_at = None \<rparr>"

definition goals_db :: "rat option \<Rightarrow> database" where
  "goals_db t = empty_db\<lparr> customers := [7], goals := [example_goal t] \<rparr>"

definition progress_post :: "rat \<Rightarrow> goal_post" where
  \<comment> \<open>the request that sets the current value of goal 4\<close>
  "progress_post v =
     \<lparr> action = ''update_progress'', p_goal_id = 4, p_current_value = Some v, p_title = [],
       p_target_value = None, p_target_date_ok = True \<rparr>"









section \<open>Decimal digits of a number\<close>



section \<open>Tables a step leaves alone\<close>

lemma Notification_create_frame [simp]:
  "goals (Notification_create n db) = goals db"
  "sessions (Notification_create n db) = sessions db"
  "subscriptions (Notification_create n db) = subscriptions db"
  by (simp_all add: Notification_create_def)

lemma assign_trainer_frame [simp]:
  "subscriptions (assign_trainer now c plan db) = subscriptions db"
  by (simp add: assign_trainer_def split: option.split list.split)

section \<open>Subscription expiry\<close>

lemma td_days_bounds:
  "td_days t * us_per_day \<le> t \<and> t < (td_days t + 1) * us_per_day"
proof -
  have pos: "0 < us_per_day" by (simp add: us_per_day_def)
  have "t = td_days t * us_per_day + t mod us_per_day"
    by (simp add: td_days_def)
  moreover have "0 \<le> t mod us_per_day" "t mod us_per_day < us_per_day"
    using pos by simp_all
  ultimately show ?thesis by (simp add: algebra_simps)
qed

text \<open>
  C1. \<open>is_expired\<close> is False for a null \<open>end_date\<close> and otherwise tells whether now is
  strictly after \<open>end_date\<close>. \<open>days_remaining\<close> is infinite for a null \<open>end_date\<close> and
  otherwise the number \<open>n\<close> of whole days from now until \<open>end_date\<close>, never below 0:
  \<open>n\<close> days fit between now and \<open>end_date\<close> and \<open>n + 1\<close> days do not, and \<open>n = 0\<close> once
  \<open>end_date\<close> has passed.
\<close>

theorem subscription_expiry:
  "(end_date s = None \<longrightarrow>
      is_expired now s = False \<and> days_remaining now s = Infinite) \<and>
   (\<forall>e. end_date s = Some e \<longrightarrow>
      is_expired now s = (now > e) \<and>
      (\<exists>n. days_remaining now s = Days n \<and> 0 \<le> n \<and>
           (now \<le> e \<longrightarrow> n * us_per_day \<le> e - now \<and> e - now < (n + 1) * us_per_day) \<and>
           (e < now \<longrightarrow> n = 0)))"
proof (intro conjI allI impI)
  assume "end_date s = None"
  then show "is_expired now s = False" by (simp add: is_expired_def)
next
  assume "end_date s = None"
  then show "days_remaining now s = Infinite" by (simp add: days_remaining_def)
next
  fix e assume "end_date s = Some e"
  then show "is_expired now s = (now > e)" by (simp add: is_expired_def)
next
  fix e assume e: "end_date s = Some e"
  define n where "n = max 0 (td_days (e - now))"
  have pos: "0 < us_per_day" by (simp add: us_per_day_def)
  have d: "days_remaining now s = Days n"
    using e by (simp add: days_remaining_def n_def)
  have b: "td_days (e - now) * us_per_day \<le> e - now"
          "e - now < (td_days (e - now) + 1) * us_per_day"
    using td_days_bounds [of "e - now"] by simp_all
  have fit: "n * us_per_day \<le> e - now \<and> e - now < (n + 1) * us_per_day" if "now \<le> e"
  proof -
    have "0 \<le> td_days (e - now)"
      using that pos by (simp add: td_days_def pos_imp_zdiv_nonneg_iff)
    then have "n = td_days (e - now)" by (simp add: n_def)
    with b show ?thesis by simp
  qed
  have past: "n = 0" if "e < now"
  proof -
    have "td_days (e - now) < 0"
      using that pos by (simp add: td_days_def div_neg_pos_less0)
    then show ?thesis by (simp add: n_def)
  qed
  show "\<exists>n. days_remaining now s = Days n \<and> 0 \<le> n \<and>
           (now \<le> e \<longrightarrow> n * us_per_day \<le> e - now \<and> e - now < (n + 1) * us_per_day) \<and>
           (e < now \<longrightarrow> n = 0)"
    using d fit past by (intro exI [of _ n]) (simp add: n_def)
qed

theorem subscription_expiry_witness:
  "is_expired 0 (example_subscription None) = False \<and>
   days_remaining 0 (example_subscription None) = Infinite \<and>
   is_expired (3 * us_per_day) (example_subscription (Some (13 * us_per_day + 5))) = False \<and>
   days_remaining (3 * us_per_day) (example_subscription (Some (13 * us_per_day + 5))) = Days 10 \<and>
   is_expired (20 * us_per_day) (example_subscription (Some (13 * us_per_day + 5))) = True \<and>
   days_remaining (20 * us_per_day) (example_subscription (Some (13 * us_per_day + 5))) = Days 0"
  using subscription_expiry [of "example_subscription None" 0]
    subscription_expiry [of "example_subscription (Some (13 * us_per_day + 5))" "3 * us_per_day"]
    subscription_expiry [of "example_subscription (Some (13 * us_per_day + 5))" "20 * us_per_day"]
  by (simp add: example_subscription_def is_expired_def days_remaining_def td_days_def
      us_per_day_def)

section \<open>Goal status and compatibility flags\<close>

lemma Goal_save_mirrors: "flags_mirror (Goal_save g)"
  by (simp add: flags_mirror_def Goal_save_def)

lemma goal_write_mirrors:
  assumes "\<forall>r \<in> set (goals db). flags_mirror r" and "flags_mirror g"
  shows "\<forall>r \<in> set (goals (goal_write g db)). flags_mirror r"
  using assms by (auto simp add: goal_write_def)

lemma create_goal_mirrors:
  assumes "\<forall>r \<in> set (goals db). flags_mirror r"
  shows "\<forall>r \<in> set (goals (fst (create_goal customer p db))). flags_mirror r"
  using assms
  by (auto simp add: create_goal_def Goal_save_mirrors split: option.splits)

lemma update_progress_shape:
  "fst (update_progress now customer p db) = db \<or>
   (\<exists>g d. goals d = goals db \<and>
      fst (update_progress now customer p db) = goal_write (Goal_save g) d)"
proof (cases "get_goal (p_goal_id p) customer db")
  case (Inl e)
  then show ?thesis by (simp add: update_progress_def)
next
  case (Inr goal)
  show ?thesis
  proof (cases "p_current_value p")
    case None
    with Inr show ?thesis by (simp add: update_progress_def)
  next
    case (Some v)
    let ?goal = "goal\<lparr> current_value := v \<rparr>"
    let ?done = "?goal\<lparr> status := ''completed'', completed_at := Some now \<rparr>"
    let ?n = "\<lparr> note_customer = customer, note_title = goal_completed_title,
        note_message = ''Congratulations! You've completed your goal: '' @ title ?done,
        notification_type = ''general'' \<rparr>"
    from Inr Some have
      "fst (update_progress now customer p db) = goal_write (Goal_save ?done) (Notification_create ?n db) \<or>
       fst (update_progress now customer p db) = goal_write (Goal_save ?goal) db"
      by (simp add: update_progress_def Let_def)
    moreover have "goals (Notification_create ?n db) = goals db" by simp
    ultimately show ?thesis by blast
  qed
qed

lemma update_progress_mirrors:
  assumes "\<forall>r \<in> set (goals db). flags_mirror r"
  shows "\<forall>r \<in> set (goals (fst (update_progress now customer p db))). flags_mirror r"
proof -
  from update_progress_shape [of now customer p db]
  show ?thesis
  proof
    assume "fst (update_progress now customer p db) = db"
    with assms show ?thesis by simp
  next
    assume "\<exists>g d. goals d = goals db \<and>
      fst (update_progress now customer p db) = goal_write (Goal_save g) d"
    then obtain g d where d: "goals d = goals db"
      and res: "fst (update_progress now customer p db) = goal_write (Goal_save g) d"
      by blast
    from assms d have "\<forall>r \<in> set (goals d). flags_mirror r" by simp
    from goal_write_mirrors [OF this Goal_save_mirrors] res show ?thesis by simp
  qed
qed

lemma change_status_mirrors:
  assumes "\<forall>r \<in> set (goals db). flags_mirror r"
  shows "\<forall>r \<in> set (goals (fst (change_status customer p db))). flags_mirror r"
proof (cases "get_goal (p_goal_id p) customer db")
  case (Inl e)
  with assms show ?thesis by (simp add: change_status_def)
next
  case (Inr goal)
  have w: "\<forall>r \<in> set (goals (goal_write (Goal_save g) db)). flags_mirror r" for g
    using goal_write_mirrors [of db "Goal_save g"] assms by (simp add: Goal_save_mirrors)
  from Inr show ?thesis
    by (simp add: change_status_def Let_def w)
qed

text \<open>
  C6. After every save of a goal the compatibility flags mirror the status: \<open>is_active\<close>
  is true exactly when the status is \<open>active\<close>, \<open>is_completed\<close> exactly when it is
  \<open>completed\<close>, and the save leaves the status as it was. The view that manages goals
  writes goals through this save only: once the flags of all stored goals mirror their
  status, they do so after every request.
\<close>

theorem goal_save_syncs_flags:
  "goal_is_active (Goal_save g) = (status (Goal_save g) = ''active'') \<and>
   is_completed (Goal_save g) = (status (Goal_save g) = ''completed'') \<and>
   status (Goal_save g) = status g \<and>
   ((\<forall>r \<in> set (goals db). flags_mirror r) \<longrightarrow>
    (\<forall>r \<in> set (goals (fst (goals_management_post now customer p db))). flags_mirror r))"
proof -
  have p1: "goal_is_active (Goal_save g) = (status (Goal_save g) = ''active'')"
    and p2: "is_completed (Goal_save g) = (status (Goal_save g) = ''completed'')"
    and p3: "status (Goal_save g) = status g"
    by (simp_all add: Goal_save_def)
  have p4: "(\<forall>r \<in> set (goals db). flags_mirror r) \<longrightarrow>
    (\<forall>r \<in> set (goals (fst (goals_management_post now customer p db))). flags_mirror r)"
  proof
    assume inv: "\<forall>r \<in> set (goals db). flags_mirror r"
    have "fst (goals_management_post now customer p db) = db \<or>
          fst (goals_management_post now customer p db) = fst (create_goal customer p db) \<or>
          fst (goals_management_post now customer p db) = fst (update_progress now customer p db) \<or>
          fst (goals_management_post now customer p db) = fst (change_status customer p db)"
      by (auto simp add: goals_management_post_def Let_def split: prod.splits option.splits)
    with inv create_goal_mirrors [OF inv] update_progress_mirrors [OF inv]
      change_status_mirrors [OF inv]
    show "\<forall>r \<in> set (goals (fst (goals_management_post now customer p db))). flags_mirror r"
      by metis
  qed
  show ?thesis by (rule conjI [OF p1 conjI [OF p2 conjI [OF p3 p4]]])
qed

theorem goal_save_syncs_flags_witness:
  "set (goals (goals_db (Some 75))) = {example_goal (Some 75)} \<and>
   flags_mirror (example_goal (Some 75)) \<and>
   map (\<lambda>g. (status g, goal_is_active g, is_completed g))
     (goals (fst (goals_management_post 1000 7 (progress_post 80) (goals_db (Some 75)))))
     = [(''completed'', False, True)] \<and>
   flags_mirror (hd (goals (fst (goals_management_post 1000 7 (progress_post 80)
     (goals_db (Some 75))))))"
proof -
  have s: "set (goals (goals_db (Some 75))) = {example_goal (Some 75)}"
    by (simp add: goals_db_def empty_db_def)
  have m: "flags_mirror (example_goal (Some 75))"
    by (simp add: flags_mirror_def example_goal_def)
  from s m have inv: "\<forall>r \<in> set (goals (goals_db (Some 75))). flags_mirror r" by simp
  note t = goal_save_syncs_flags [of "example_goal (Some 75)" "goals_db (Some 75)" 1000 7
      "progress_post 80", THEN conjunct2, THEN conjunct2, THEN conjunct2, THEN mp, OF inv]
  have e: "map (\<lambda>g. (status g, goal_is_active g, is_completed g))
     (goals (fst (goals_management_post 1000 7 (progress_post 80) (goals_db (Some 75)))))
     = [(''completed'', False, True)]"
    by (simp add: example_goal_def goals_db_def empty_db_def progress_post_def
        goals_management_post_def update_progress_def get_goal_def decimal_truthy_def
        goal_write_def Goal_save_def Notification_create_def)
  then have "goals (fst (goals_management_post 1000 7 (progress_post 80)
      (goals_db (Some 75)))) \<noteq> []" by auto
  with t have "flags_mirror (hd (goals (fst (goals_management_post 1000 7 (progress_post 80)
     (goals_db (Some 75))))))" by simp
  with s m e show ?thesis by simp
qed

section \<open>Premium resources\<close>

text \<open>
  C5. A download request for a premium resource is answered with the file only when the
  requesting user is a customer whose subscription is active and whose plan has the
  \<open>premium_content\<close> flag. A customer without such a subscription is refused: the response
  carries the error message and redirects to the resource list, without file content.
\<close>

theorem premium_download_gated:
  assumes "find (\<lambda>r. resource_id r = rid \<and> res_is_active r) (resources db) = Some resource"
    and "is_premium resource"
  shows "(\<forall>msgs content name.
            download_resource user rid db = Inr (msgs, HttpResponse content name) \<longrightarrow>
            (\<exists>u customer subscription.
               user = Some u \<and> get_customer_or_redirect u = Some customer \<and>
               find (\<lambda>s. sub_customer s = customer) (subscriptions db) = Some subscription \<and>
               sub_is_active subscription \<and> premium_content (sub_plan subscription))) \<and>
         (\<forall>u customer.
            user = Some u \<and> get_customer_or_redirect u = Some customer \<and>
            \<not> (\<exists>subscription.
                 find (\<lambda>s. sub_customer s = customer) (subscriptions db) = Some subscription \<and>
                 sub_is_active subscription \<and> premium_content (sub_plan subscription)) \<longrightarrow>
            download_resource user rid db =
              Inr ([(error, ''Premium subscription required to access this resource.'')],
                   Redirect ''resources_downloads''))"
proof (intro conjI allI impI)
  fix msgs content name
  assume served: "download_resource user rid db = Inr (msgs, HttpResponse content name)"
  from served obtain u where u: "user = Some u"
    by (cases user) (simp_all add: download_resource_def)
  from served u obtain customer where c: "get_customer_or_redirect u = Some customer"
    by (cases "get_customer_or_redirect u") (simp_all add: download_resource_def)
  from served u c assms have "has_premium_access customer db"
    by (auto simp add: download_resource_def split: if_splits)
  then obtain subscription where
    "find (\<lambda>s. sub_customer s = customer) (subscriptions db) = Some subscription"
    "sub_is_active subscription" "premium_content (sub_plan subscription)"
    by (auto simp add: has_premium_access_def split: option.splits)
  with u c show "\<exists>u customer subscription.
      user = Some u \<and> get_customer_or_redirect u = Some customer \<and>
      find (\<lambda>s. sub_customer s = customer) (subscriptions db) = Some subscription \<and>
      sub_is_active subscription \<and> premium_content (sub_plan subscription)"
    by blast
next
  fix u customer
  assume h: "user = Some u \<and> get_customer_or_redirect u = Some customer \<and>
    \<not> (\<exists>subscription.
         find (\<lambda>s. sub_customer s = customer) (subscriptions db) = Some subscription \<and>
         sub_is_active subscription \<and> premium_content (sub_plan subscription))"
  then have "\<not> has_premium_access customer db"
    by (auto simp add: has_premium_access_def split: option.splits)
  with h assms show "download_resource user rid db =
      Inr ([(error, ''Premium subscription required to access this resource.'')],
           Redirect ''resources_downloads'')"
    by (simp add: download_resource_def)
qed

theorem premium_download_gated_witness:
  "find (\<lambda>r. resource_id r = 3 \<and> res_is_active r) (resources download_db) = Some example_resource \<and>
   is_premium example_resource \<and>
   download_resource (Some (example_user 7)) 3 download_db = Inr ([], HttpResponse ''PDF'' ''plan.pdf'') \<and>
   download_resource (Some (example_user 8)) 3 download_db =
     Inr ([(error, ''Premium subscription required to access this resource.'')],
          Redirect ''resources_downloads'')"
  using premium_download_gated [of 3 download_db example_resource "Some (example_user 7)"]
    premium_download_gated [of 3 download_db example_resource "Some (example_user 8)"]
  by (simp add: download_db_def empty_db_def example_resource_def example_user_def
      example_subscription_def example_plan_def download_resource_def
      get_customer_or_redirect_def has_premium_access_def basename_def)

section \<open>Sessions are unique per trainer, date and time\<close>

lemma Session_create_unique:
  "unique_slots db \<Longrightarrow> Session_create s db = Inr db' \<Longrightarrow> unique_slots db'"
  by (auto simp add: Session_create_def unique_slots_def split: if_splits)

lemma Session_create_occupied:
  "slot s \<in> set (map slot (sessions db)) \<Longrightarrow> Session_create s db = Inl IntegrityError"
  by (simp add: Session_create_def)

lemma schedule_body_sessions:
  "sessions (fst (schedule_body trainer p db)) = sessions db \<or>
   (\<exists>db1 s. Session_create s db = Inr db1 \<and>
      sessions (fst (schedule_body trainer p db)) = sessions db1)"
  by (auto simp add: schedule_body_def split: option.split list.split sum.split)

lemma schedule_body_unique:
  assumes "unique_slots db"
  shows "unique_slots (fst (schedule_body trainer p db))"
proof -
  from schedule_body_sessions [of trainer p db]
  show ?thesis
  proof
    assume "sessions (fst (schedule_body trainer p db)) = sessions db"
    with assms show ?thesis by (simp add: unique_slots_def)
  next
    assume "\<exists>db1 s. Session_create s db = Inr db1 \<and>
      sessions (fst (schedule_body trainer p db)) = sessions db1"
    then obtain db1 s where c: "Session_create s db = Inr db1"
      and e: "sessions (fst (schedule_body trainer p db)) = sessions db1"
      by blast
    from Session_create_unique [OF assms c] e show ?thesis
      by (simp add: unique_slots_def)
  qed
qed

lemma schedule_body_occupied:
  assumes "sp_parsed_date p = Some d" and "sp_parsed_time p = Some tm"
    and "(trainer_id trainer, d, tm) \<in> set (map slot (sessions db))"
  shows "\<exists>msg. schedule_body trainer p db = (db, [(error, msg)])"
proof -
  let ?s = "\<lambda>duration. \<lparr> session_customer = sp_customer_id p,
      session_trainer = trainer_id trainer, session_date = d, session_time = tm,
      duration_minutes = duration, session_type = sp_session_type p,
      session_status = ''scheduled'', session_notes = sp_notes p \<rparr>"
  have "Session_create (?s duration) db = Inl IntegrityError" for duration
    using assms(3) by (intro Session_create_occupied) (simp add: slot_def)
  then show ?thesis
    using assms(1,2)
    by (simp add: schedule_body_def split: option.split list.split)
qed

text \<open>
  C7. No two sessions ever share trainer, date and time: the insert of a session keeps
  the slots of the table distinct and raises for an occupied slot, and so does the
  scheduling view. Scheduling at a slot that a session of the trainer occupies, whatever
  the status of that session, is rejected: the table is left as it was and the trainer
  gets an error message.
\<close>

theorem session_slots_unique:
  "(\<forall>s db'. unique_slots db \<and> Session_create s db = Inr db' \<longrightarrow> unique_slots db') \<and>
   (\<forall>s. slot s \<in> set (map slot (sessions db)) \<longrightarrow> Session_create s db = Inl IntegrityError) \<and>
   (unique_slots db \<longrightarrow> unique_slots (fst (trainer_schedule_post user p db))) \<and>
   (\<forall>u trainer d tm.
      user = Some u \<and> get_trainer_or_redirect u db = Some trainer \<and>
      sp_parsed_date p = Some d \<and> sp_parsed_time p = Some tm \<and>
      (trainer_id trainer, d, tm) \<in> set (map slot (sessions db)) \<longrightarrow>
      (\<exists>msg. trainer_schedule_post user p db =
               (db, [(error, msg)], Redirect ''trainer_schedule'')))"
proof (intro conjI allI impI)
  fix s db' assume "unique_slots db \<and> Session_create s db = Inr db'"
  then show "unique_slots db'" using Session_create_unique by blast
next
  fix s assume "slot s \<in> set (map slot (sessions db))"
  then show "Session_create s db = Inl IntegrityError" by (rule Session_create_occupied)
next
  assume u: "unique_slots db"
  show "unique_slots (fst (trainer_schedule_post user p db))"
  proof (cases user)
    case None
    with u show ?thesis by (simp add: trainer_schedule_post_def)
  next
    case (Some usr)
    show ?thesis
    proof (cases "get_trainer_or_redirect usr db")
      case None
      with Some u show ?thesis by (simp add: trainer_schedule_post_def)
    next
      case (Some trainer)
      with \<open>user = Some usr\<close> schedule_body_unique [OF u, of trainer p]
      show ?thesis
        by (cases "schedule_body trainer p db") (simp add: trainer_schedule_post_def)
    qed
  qed
next
  fix u trainer d tm
  assume h: "user = Some u \<and> get_trainer_or_redirect u db = Some trainer \<and>
      sp_parsed_date p = Some d \<and> sp_parsed_time p = Some tm \<and>
      (trainer_id trainer, d, tm) \<in> set (map slot (sessions db))"
  then obtain msg where "schedule_body trainer p db = (db, [(error, msg)])"
    using schedule_body_occupied [of p d tm trainer db] by blast
  with h show "\<exists>msg. trainer_schedule_post user p db =
               (db, [(error, msg)], Redirect ''trainer_schedule'')"
    by (simp add: trainer_schedule_post_def)
qed

theorem session_slots_unique_witness:
  "unique_slots (schedule_db ''completed'') \<and>
   trainer_schedule_post (Some (example_trainer_user 2)) (example_schedule_post 600)
       (schedule_db ''completed'') =
     (schedule_db ''completed'', [(error, ''Error scheduling session: IntegrityError'')],
      Redirect ''trainer_schedule'') \<and>
   trainer_schedule_post (Some (example_trainer_user 2)) (example_schedule_post 600)
       (schedule_db ''scheduled'') =
     (schedule_db ''scheduled'', [(error, ''You already have a session scheduled at this time.'')],
      Redirect ''trainer_schedule'') \<and>
   map slot (sessions (fst (trainer_schedule_post (Some (example_trainer_user 2))
       (example_schedule_post 660) (schedule_db ''completed'')))) =
     [(2, 20000, 600), (2, 20000, 660)] \<and>
   unique_slots (fst (trainer_schedule_post (Some (example_trainer_user 2))
       (example_schedule_post 660) (schedule_db ''completed'')))"
  using session_slots_unique [of "schedule_db ''completed''" "Some (example_trainer_user 2)"
      "example_schedule_post 600"]
    session_slots_unique [of "schedule_db ''scheduled''" "Some (example_trainer_user 2)"
      "example_schedule_post 600"]
    session_slots_unique [of "schedule_db ''completed''" "Some (example_trainer_user 2)"
      "example_schedule_post 660"]
  by (simp add: schedule_db_def empty_db_def example_session_def example_trainer_user_def
      example_schedule_post_def trainer_schedule_post_def get_trainer_or_redirect_def
      schedule_body_def conflicting_def Session_create_def Notification_create_def
      slot_def unique_slots_def describe_def)

section \<open>Creation of a subscription\<close>

lemma set_end_date_new:
  assumes "is_new s" and "0 < duration_days (sub_plan s)" and "set_end_date s = Inr s'"
  shows "s' = s\<lparr> end_date := Some (start_date s + duration_days (sub_plan s) * us_per_day) \<rparr>"
  using assms
  by (auto simp add: set_end_date_def timedelta_days_def datetime_add_def Let_def
      split: if_splits sum.splits)

lemma set_end_date_keys:
  "set_end_date s = Inr s' \<Longrightarrow> sub_pk s' = sub_pk s \<and> sub_customer s' = sub_customer s"
  by (auto simp add: set_end_date_def split: if_splits sum.splits)

lemma save_new_end_date:
  assumes "is_new s" and "0 < duration_days (sub_plan s)"
    and "CustomerSubscription_save now s = Inr s'"
  shows "end_date s' = Some (start_date s + duration_days (sub_plan s) * us_per_day) \<and>
         start_date s' = start_date s"
proof -
  from assms(3) obtain s1 where s1: "set_end_date s = Inr s1"
    by (cases "set_end_date s") (simp_all add: CustomerSubscription_save_def)
  from set_end_date_new [OF assms(1,2) s1] assms(3) s1 show ?thesis
    by (auto simp add: CustomerSubscription_save_def split: if_splits)
qed

lemma save_new_returns:
  assumes "is_new s" and "0 < duration_days (sub_plan s)"
    and "duration_days (sub_plan s) \<le> 999999999"
    and "valid_datetime (start_date s + duration_days (sub_plan s) * us_per_day)"
  shows "\<exists>s'. CustomerSubscription_save now s = Inr s'"
  using assms
  by (simp add: CustomerSubscription_save_def set_end_date_def timedelta_days_def
      datetime_add_def)

lemma save_keys:
  "CustomerSubscription_save now s = Inr s' \<Longrightarrow>
     sub_pk s' = sub_pk s \<and> sub_customer s' = sub_customer s"
  by (auto simp add: CustomerSubscription_save_def split: sum.splits if_splits
      dest: set_end_date_keys)

lemma fold_max_ge: "(a::nat) \<le> fold max xs a"
proof (induction xs arbitrary: a)
  case Nil
  show ?case by simp
next
  case (Cons x xs)
  have "a \<le> max x a" by simp
  also have "\<dots> \<le> fold max xs (max x a)" by (rule Cons.IH)
  finally show ?case by simp
qed

lemma fold_max_upper: "x \<in> set xs \<Longrightarrow> (x::nat) \<le> fold max xs a"
proof (induction xs arbitrary: a)
  case Nil
  then show ?case by simp
next
  case (Cons y ys)
  show ?case
  proof (cases "x = y")
    case True
    have "x \<le> max y a" using True by simp
    also have "\<dots> \<le> fold max ys (max y a)" by (rule fold_max_ge)
    finally show ?thesis by simp
  next
    case False
    with Cons.prems have "x \<in> set ys" by simp
    from Cons.IH [OF this] show ?thesis by simp
  qed
qed

lemma next_pk_fresh: "Some (next_pk rows) \<notin> set (map sub_pk rows)"
proof
  assume "Some (next_pk rows) \<in> set (map sub_pk rows)"
  then obtain r where r: "r \<in> set rows" "sub_pk r = Some (next_pk rows)" by auto
  then have "next_pk rows \<in> set (map (\<lambda>r. case sub_pk r of None \<Rightarrow> 0 | Some k \<Rightarrow> k) rows)"
    by force
  from fold_max_upper [OF this, of 0] show False
    by (simp add: next_pk_def)
qed

lemma replace_by_pk:
  assumes "distinct (map sub_pk rows)" and "r0 \<in> set rows"
    and "sub_pk s = sub_pk r0" and "sub_customer s = sub_customer r0"
  shows "map sub_pk (map (\<lambda>r. if sub_pk r = sub_pk s then s else r) rows) = map sub_pk rows"
    and "map sub_customer (map (\<lambda>r. if sub_pk r = sub_pk s then s else r) rows) =
         map sub_customer rows"
proof -
  show "map sub_pk (map (\<lambda>r. if sub_pk r = sub_pk s then s else r) rows) = map sub_pk rows"
    by (induction rows) auto
  have inj: "inj_on sub_pk (set rows)"
    using assms(1) by (simp add: distinct_map)
  have "sub_customer (if sub_pk r = sub_pk s then s else r) = sub_customer r"
    if "r \<in> set rows" for r
  proof (cases "sub_pk r = sub_pk s")
    case True
    with assms(3) have "sub_pk r = sub_pk r0" by simp
    with inj that assms(2) have "r = r0" by (auto dest: inj_onD)
    with True assms(4) show ?thesis by simp
  next
    case False
    then show ?thesis by simp
  qed
  then show "map sub_customer (map (\<lambda>r. if sub_pk r = sub_pk s then s else r) rows) =
         map sub_customer rows"
    by (induction rows) auto
qed

lemma subscription_write_insert:
  assumes "one_subscription_each db" and "subscription_keys db" and "is_new s"
    and "subscription_write s db = Inr (s', db')"
  shows "one_subscription_each db' \<and> subscription_keys db' \<and>
         subscriptions db' = subscriptions db @ [s'] \<and>
         s' = s\<lparr> sub_pk := Some (next_pk (subscriptions db)) \<rparr>"
proof -
  from assms(3,4) have fresh: "sub_customer s \<notin> set (map sub_customer (subscriptions db))"
    and s': "s' = s\<lparr> sub_pk := Some (next_pk (subscriptions db)) \<rparr>"
    and db': "db' = db\<lparr> subscriptions := subscriptions db @ [s'] \<rparr>"
    by (auto simp add: subscription_write_def Let_def split: if_splits)
  have pk: "Some (next_pk (subscriptions db)) \<notin> set (map sub_pk (subscriptions db))"
    by (rule next_pk_fresh)
  have "\<not> is_new s'" by (simp add: s' is_new_def next_pk_def)
  with assms(1,2) fresh pk s' db' show ?thesis
    by (auto simp add: one_subscription_each_def subscription_keys_def)
qed

lemma subscription_write_update:
  assumes "one_subscription_each db" and "subscription_keys db" and "\<not> is_new s"
    and "r0 \<in> set (subscriptions db)"
    and "sub_pk s = sub_pk r0" and "sub_customer s = sub_customer r0"
    and "subscription_write s db = Inr (s', db')"
  shows "one_subscription_each db' \<and> subscription_keys db'"
proof -
  from assms(3,7) have db': "db' = db\<lparr> subscriptions :=
      map (\<lambda>r. if sub_pk r = sub_pk s then s else r) (subscriptions db) \<rparr>"
    by (auto simp add: subscription_write_def)
  have d: "distinct (map sub_pk (subscriptions db))"
    using assms(2) by (simp add: subscription_keys_def)
  have m1: "map sub_pk (subscriptions db') = map sub_pk (subscriptions db)"
    unfolding db' using replace_by_pk(1) [OF d assms(4,5,6)] by (simp del: map_map)
  have m2: "map sub_customer (subscriptions db') = map sub_customer (subscriptions db)"
    unfolding db' using replace_by_pk(2) [OF d assms(4,5,6)] by (simp del: map_map)
  have m3: "set (subscriptions db') \<subseteq> insert s (set (subscriptions db))"
    unfolding db' by auto
  have "one_subscription_each db'"
    using assms(1) m2 by (simp add: one_subscription_each_def)
  moreover have "distinct (map sub_pk (subscriptions db'))"
    using d m1 by simp
  moreover have "\<forall>r \<in> set (subscriptions db'). \<not> is_new r"
    using m3 assms(2,3) by (auto simp add: subscription_keys_def)
  ultimately show ?thesis by (simp add: subscription_keys_def)
qed

lemma get_or_create_subscription_result:
  assumes inv: "one_subscription_each db" "subscription_keys db"
    and goc: "get_or_create_subscription clk c plan db = Inr ((s, created), db')"
  shows "one_subscription_each db' \<and> subscription_keys db' \<and>
         sub_customer s = c \<and> s \<in> set (subscriptions db') \<and>
         (created \<and> 0 < duration_days plan \<longrightarrow>
            end_date s = Some (start_date s + duration_days plan * us_per_day) \<and>
            start_date s = t_start clk \<and> sub_plan s = plan \<and>
            c \<notin> set (map sub_customer (subscriptions db)) \<and>
            subscriptions db' = subscriptions db @ [s]) \<and>
         (\<not> created \<longrightarrow> db' = db)"
proof -
  from goc obtain td where td: "timedelta_days (duration_days plan) = Inr td"
    by (cases "timedelta_days (duration_days plan)")
       (simp_all add: get_or_create_subscription_def)
  from goc td obtain ed where ed: "datetime_add (t_end clk) td = Inr ed"
    by (cases "datetime_add (t_end clk) td") (simp_all add: get_or_create_subscription_def)
  let ?new = "\<lparr> sub_pk = None, sub_customer = c, sub_plan = plan,
      start_date = t_start clk, end_date = Some ed,
      sub_is_active = True, auto_renew = True \<rparr>"
  show ?thesis
  proof (cases "filter (\<lambda>s. sub_customer s = c) (subscriptions db)")
    case Nil
    with goc td ed obtain s0 where s0: "CustomerSubscription_save (t_save clk) ?new = Inr s0"
      by (cases "CustomerSubscription_save (t_save clk) ?new")
         (simp_all add: get_or_create_subscription_def)
    with goc td ed Nil have w: "subscription_write s0 db = Inr (s, db')" and cr: "created"
      by (auto simp add: get_or_create_subscription_def split: sum.splits)
    have new: "is_new ?new" by (simp add: is_new_def)
    from save_keys [OF s0] have k: "sub_pk s0 = None" "sub_customer s0 = c" by simp_all
    then have new0: "is_new s0" by (simp add: is_new_def)
    from subscription_write_insert [OF inv new0 w]
    have r: "one_subscription_each db'" "subscription_keys db'"
      "subscriptions db' = subscriptions db @ [s]"
      "s = s0\<lparr> sub_pk := Some (next_pk (subscriptions db)) \<rparr>"
      by simp_all
    from Nil have absent: "c \<notin> set (map sub_customer (subscriptions db))"
      by (auto simp add: filter_empty_conv)
    have "end_date s = Some (start_date s + duration_days plan * us_per_day) \<and>
          start_date s = t_start clk \<and> sub_plan s = plan" if "0 < duration_days plan"
    proof -
      from s0 obtain s1 where s1: "set_end_date ?new = Inr s1"
        by (cases "set_end_date ?new") (simp_all add: CustomerSubscription_save_def)
      from set_end_date_new [OF new _ s1] that
      have "s1 = ?new\<lparr> end_date := Some (t_start clk + duration_days plan * us_per_day) \<rparr>"
        by simp
      with s0 s1 r(4) show ?thesis
        by (auto simp add: CustomerSubscription_save_def split: if_splits)
    qed
    with r k cr absent show ?thesis by simp
  next
    case (Cons r0 rest)
    with goc td ed have rest: "rest = []" and s: "s = r0" and cr: "\<not> created" and db': "db' = db"
      by (auto simp add: get_or_create_subscription_def split: list.splits)
    from Cons have "r0 \<in> set (filter (\<lambda>s. sub_customer s = c) (subscriptions db))"
      by simp
    then have "r0 \<in> set (subscriptions db)" "sub_customer r0 = c" by simp_all
    with inv s cr db' show ?thesis by simp
  qed
qed

lemma update_subscription_result:
  assumes inv: "one_subscription_each db" "subscription_keys db"
    and r0: "r0 \<in> set (subscriptions db)"
    and upd: "update_subscription clk plan r0 db = Inr (s', db')"
  shows "one_subscription_each db' \<and> subscription_keys db'"
proof -
  from upd obtain td where td: "timedelta_days (duration_days plan) = Inr td"
    by (cases "timedelta_days (duration_days plan)") (simp_all add: update_subscription_def)
  from upd td obtain ed where ed: "datetime_add (t_end clk) td = Inr ed"
    by (cases "datetime_add (t_end clk) td") (simp_all add: update_subscription_def)
  let ?upd = "r0\<lparr> sub_plan := plan, start_date := t_start clk, end_date := Some ed,
      sub_is_active := True, auto_renew := True \<rparr>"
  from upd td ed obtain s where s: "CustomerSubscription_save (t_save clk) ?upd = Inr s"
    and w: "subscription_write s db = Inr (s', db')"
    by (cases "CustomerSubscription_save (t_save clk) ?upd")
       (simp_all add: update_subscription_def)
  from save_keys [OF s] have k: "sub_pk s = sub_pk r0" "sub_customer s = sub_customer r0"
    by simp_all
  from inv(2) r0 have "\<not> is_new r0" by (simp add: subscription_keys_def)
  with k have "\<not> is_new s" by (simp add: is_new_def)
  from subscription_write_update [OF inv this r0 k w] show ?thesis .
qed

lemma subscriptions_Payment_create:
  "Payment_create p db = Inr db' \<Longrightarrow> subscriptions db' = subscriptions db"
  by (auto simp add: Payment_create_def split: if_splits)

lemma subscribe_body_subscriptions:
  assumes inv: "one_subscription_each db" "subscription_keys db"
  shows "one_subscription_each (fst (subscribe_body clk c plan db)) \<and>
         subscription_keys (fst (subscribe_body clk c plan db))"
proof (cases "get_or_create_subscription clk c plan db")
  case (Inl e)
  with inv show ?thesis by (simp add: subscribe_body_def)
next
  case (Inr res)
  obtain s created db1 where res: "res = ((s, created), db1)" by (metis surj_pair)
  note goc = get_or_create_subscription_result [OF inv Inr [unfolded res]]
  then have inv1: "one_subscription_each db1" "subscription_keys db1"
    and mem: "s \<in> set (subscriptions db1)" by simp_all
  let ?step = "if created then Inr (s, db1) else update_subscription clk plan s db1"
  show ?thesis
  proof (cases ?step)
    case (Inl e)
    with Inr res inv1 show ?thesis by (simp add: subscribe_body_def)
  next
    case step: (Inr res2)
    obtain s2 db2 where res2: "res2 = (s2, db2)" by (metis surj_pair)
    have inv2: "one_subscription_each db2 \<and> subscription_keys db2"
    proof (cases created)
      case True
      with step res2 inv1 show ?thesis by simp
    next
      case False
      with step res2 have "update_subscription clk plan s db1 = Inr (s2, db2)" by simp
      from update_subscription_result [OF inv1 mem this] show ?thesis .
    qed
    let ?pay = "\<lparr> pay_customer = c, amount = price plan, payment_status = ''completed'',
        transaction_id = (t_pay clk div 1000000, c) \<rparr>"
    show ?thesis
    proof (cases "Payment_create ?pay db2")
      case (Inl e)
      with Inr res step res2 inv2 show ?thesis by (simp add: subscribe_body_def)
    next
      case pay: (Inr db3)
      from subscriptions_Payment_create [OF pay] inv2
      have "one_subscription_each db3 \<and> subscription_keys db3"
        by (simp add: one_subscription_each_def subscription_keys_def)
      then have "one_subscription_each (Notification_create n (assign_trainer t c plan db3)) \<and>
        subscription_keys (Notification_create n (assign_trainer t c plan db3))" for n t
        by (simp add: one_subscription_each_def subscription_keys_def)
      with Inr res step res2 pay show ?thesis by (simp add: subscribe_body_def)
    qed
  qed
qed

text \<open>
  C8. When a new subscription is saved for a plan with a positive \<open>duration_days\<close>, its
  \<open>end_date\<close> is its \<open>start_date\<close> plus that many days; the save returns whenever the
  duration fits a timedelta and the sum is a date the \<open>datetime\<close> type can hold. The
  subscription that \<open>subscribe_to_plan\<close> creates for a customer without one is stored with
  that \<open>end_date\<close>. Each customer has at most one subscription record: the view keeps
  the customers of the stored subscriptions distinct.
\<close>

theorem new_subscription_end_date:
  "(\<forall>s'. is_new s \<and> 0 < duration_days (sub_plan s) \<and>
         CustomerSubscription_save now s = Inr s' \<longrightarrow>
         end_date s' = Some (start_date s + duration_days (sub_plan s) * us_per_day) \<and>
         start_date s' = start_date s) \<and>
   (is_new s \<and> 0 < duration_days (sub_plan s) \<and> duration_days (sub_plan s) \<le> 999999999 \<and>
    valid_datetime (start_date s + duration_days (sub_plan s) * us_per_day) \<longrightarrow>
      (\<exists>s'. CustomerSubscription_save now s = Inr s')) \<and>
   (\<forall>sub db'. one_subscription_each db \<and> subscription_keys db \<and> 0 < duration_days plan \<and>
         get_or_create_subscription clk c plan db = Inr ((sub, True), db') \<longrightarrow>
         subscriptions db' = subscriptions db @ [sub] \<and>
         end_date sub = Some (start_date sub + duration_days plan * us_per_day)) \<and>
   (\<forall>db' msgs resp. one_subscription_each db \<and> subscription_keys db \<and>
         subscribe_to_plan clk user is_post pid db = Inr (db', msgs, resp) \<longrightarrow>
         one_subscription_each db' \<and> subscription_keys db')"
proof -
  have p1: "\<forall>s'. is_new s \<and> 0 < duration_days (sub_plan s) \<and>
         CustomerSubscription_save now s = Inr s' \<longrightarrow>
         end_date s' = Some (start_date s + duration_days (sub_plan s) * us_per_day) \<and>
         start_date s' = start_date s"
    using save_new_end_date by blast
  have p2: "is_new s \<and> 0 < duration_days (sub_plan s) \<and>
      duration_days (sub_plan s) \<le> 999999999 \<and>
      valid_datetime (start_date s + duration_days (sub_plan s) * us_per_day) \<longrightarrow>
      (\<exists>s'. CustomerSubscription_save now s = Inr s')"
    using save_new_returns by blast
  have p3: "\<forall>sub db'. one_subscription_each db \<and> subscription_keys db \<and>
         0 < duration_days plan \<and>
         get_or_create_subscription clk c plan db = Inr ((sub, True), db') \<longrightarrow>
         subscriptions db' = subscriptions db @ [sub] \<and>
         end_date sub = Some (start_date sub + duration_days plan * us_per_day)"
  proof (intro allI impI)
    fix sub db'
    assume h: "one_subscription_each db \<and> subscription_keys db \<and> 0 < duration_days plan \<and>
         get_or_create_subscription clk c plan db = Inr ((sub, True), db')"
    then have goc: "get_or_create_subscription clk c plan db = Inr ((sub, True), db')"
      and inv: "one_subscription_each db" "subscription_keys db" by simp_all
    from get_or_create_subscription_result [OF inv goc] h
    show "subscriptions db' = subscriptions db @ [sub] \<and>
         end_date sub = Some (start_date sub + duration_days plan * us_per_day)"
      by simp
  qed
  have p4: "\<forall>db' msgs resp. one_subscription_each db \<and> subscription_keys db \<and>
         subscribe_to_plan clk user is_post pid db = Inr (db', msgs, resp) \<longrightarrow>
         one_subscription_each db' \<and> subscription_keys db'"
  proof (intro allI impI)
    fix db' msgs resp
    assume h: "one_subscription_each db \<and> subscription_keys db \<and>
         subscribe_to_plan clk user is_post pid db = Inr (db', msgs, resp)"
    then have inv: "one_subscription_each db" "subscription_keys db" by simp_all
    have body: "one_subscription_each (fst (subscribe_body clk customer p db)) \<and>
        subscription_keys (fst (subscribe_body clk customer p db))" for customer p
      by (rule subscribe_body_subscriptions [OF inv])
    from h have "db' = db \<or> (\<exists>customer p. db' = fst (subscribe_body clk customer p db))"
      by (auto simp add: subscribe_to_plan_def
          split: option.splits if_splits prod.splits) (metis fst_conv)+
    with inv body show "one_subscription_each db' \<and> subscription_keys db'" by auto
  qed
  show ?thesis by (rule conjI [OF p1 conjI [OF p2 conjI [OF p3 p4]]])
qed

theorem new_subscription_end_date_witness:
  "is_new new_subscription \<and> 0 < duration_days (sub_plan new_subscription) \<and>
   map_sum id end_date (CustomerSubscription_save 1010 new_subscription) =
     Inr (Some (1000 + 30 * us_per_day)) \<and>
   one_subscription_each plans_db \<and> subscription_keys plans_db \<and>
   map_sum id (\<lambda>(db', msgs, resp). map (\<lambda>s. (sub_customer s, start_date s, end_date s))
       (subscriptions db'))
     (subscribe_to_plan example_clock (Some (example_user 7)) True 1 plans_db) =
     Inr [(7, 1000, Some (1000 + 30 * us_per_day))]"
  using new_subscription_end_date [of new_subscription 1010 plans_db example_plan example_clock 7
      "Some (example_user 7)" True 1]
  by (simp add: new_subscription_def example_plan_def plans_db_def empty_db_def
      example_clock_def example_user_def is_new_def CustomerSubscription_save_def
      set_end_date_def timedelta_days_def datetime_add_def valid_datetime_def
      datetime_max_def us_per_day_def is_expired_def one_subscription_each_def
      subscription_keys_def subscribe_to_plan_def get_customer_or_redirect_def
      subscribe_body_def get_or_create_subscription_def subscription_write_def next_pk_def
      Payment_create_def assign_trainer_def available_trainer_def first_def
      Notification_create_def Let_def)

section \<open>Completion of a goal\<close>








section \<open>Automatic assignment of a trainer\<close>









section \<open>Failure of the mail backend\<close>






section \<open>Signup with a one-time password\<close>

subsection \<open>The code has six digits\<close>







subsection \<open>What a submission can do\<close>









subsection \<open>The claim\<close>




section \<open>The monthly equivalent of a price\<close>

subsection \<open>Powers of ten\<close>








subsection \<open>Rounding to the precision of the context\<close>








subsection \<open>The claim\<close>





end
